theory Spec2Isabelle
  imports Complex_Main "HOL-Library.Word"
begin

section \<open>JavaScript numbers\<close>

text \<open>
  A JavaScript number is modelled as a real. The values the modelled code rounds are
  products, differences and quotients of a few inputs; where the double-precision result
  could differ from the real one this is said at the definition that uses it.
\<close>

definition Math_round :: "real \<Rightarrow> int" where
  \<comment> \<open>\<^verbatim>\<open>Math.round\<close>: the nearest integer, a tie going up.\<close>
  "Math_round v = \<lfloor>v + 1 / 2\<rfloor>"

definition toFixed0 :: "real \<Rightarrow> int" where
  \<comment> \<open>\<^verbatim>\<open>Number(v.toFixed(0))\<close>: the sign is split off, the magnitude is rounded to the
      nearest integer, a tie taking the larger one.\<close>
  "toFixed0 v = (if v < 0 then - \<lfloor>- v + 1 / 2\<rfloor> else \<lfloor>v + 1 / 2\<rfloor>)"

definition ToIntegerOrInfinity :: "real \<Rightarrow> int" where
  \<comment> \<open>The truncation towards zero that every typed-array store starts with.\<close>
  "ToIntegerOrInfinity v = (if v < 0 then \<lceil>v\<rceil> else \<lfloor>v\<rfloor>)"

definition ToInt16 :: "real \<Rightarrow> 16 word" where
  \<comment> \<open>The store into an \<^verbatim>\<open>Int16Array\<close> element: truncate, then keep the low 16 bits.\<close>
  "ToInt16 v = word_of_int (ToIntegerOrInfinity v)"

definition atan2 :: "real \<Rightarrow> real \<Rightarrow> real" where
  \<comment> \<open>\<^verbatim>\<open>Math.atan2(dy, dx)\<close> on reals, in radians, with values in \<open>(-\<pi>, \<pi>]\<close>.\<close>
  "atan2 dy dx =
     (if 0 < dx then arctan (dy / dx)
      else if dx < 0 then (if 0 \<le> dy then arctan (dy / dx) + pi else arctan (dy / dx) - pi)
      else if 0 < dy then pi / 2
      else if dy < 0 then - (pi / 2)
      else 0)"

section \<open>JavaScript strings\<close>

text \<open>
  Strings are lists of 8-bit characters, so the model covers transcripts and labels whose
  code units lie in Latin-1. Adding 32 to an upper-case letter sets bit 5 of its code,
  which is clear in both upper-case ranges; removing 32 clears it. The three Latin-1
  letters whose upper-case form lies outside Latin-1 (codes 181, 223 and 255) are left as
  they are; no expression label starts with one of them.
\<close>

definition toLowerCase_char :: "char \<Rightarrow> char" where
  "toLowerCase_char c =
     (let n = (of_char c :: nat)
      in if (65 \<le> n \<and> n \<le> 90) \<or> (192 \<le> n \<and> n \<le> 222 \<and> n \<noteq> 215)
         then Char (digit0 c) (digit1 c) (digit2 c) (digit3 c) (digit4 c) True (digit6 c) (digit7 c)
         else c)"

definition toUpperCase_char :: "char \<Rightarrow> char" where
  "toUpperCase_char c =
     (let n = (of_char c :: nat)
      in if (97 \<le> n \<and> n \<le> 122) \<or> (224 \<le> n \<and> n \<le> 254 \<and> n \<noteq> 247)
         then Char (digit0 c) (digit1 c) (digit2 c) (digit3 c) (digit4 c) False (digit6 c) (digit7 c)
         else c)"

definition toLowerCase :: "string \<Rightarrow> string" where
  "toLowerCase str = map toLowerCase_char str"

definition isSpace :: "char \<Rightarrow> bool" where
  \<comment> \<open>The class \<^verbatim>\<open>\s\<close>: tab, line feed, vertical tab, form feed, carriage return, space,
      no-break space.\<close>
  "isSpace c = ((of_char c :: nat) \<in> {9, 10, 11, 12, 13, 32, 160})"

function split_ws :: "string \<Rightarrow> string \<Rightarrow> string list" where
  \<comment> \<open>\<^verbatim>\<open>str.split(/\s+/)\<close>, the first argument being the piece read so far. Empty pieces
      appear at a leading or trailing run of white space, as in JavaScript.\<close>
  "split_ws cur [] = [cur]"
| "split_ws cur (c # cs) =
     (if isSpace c then cur # split_ws [] (dropWhile isSpace cs)
      else split_ws (cur @ [c]) cs)"
  by pat_completeness auto
termination
  by (relation "measure (\<lambda>(cur, cs). length cs)")
     (auto simp: length_dropWhile_le le_imp_less_Suc)

definition capitalize :: "string \<Rightarrow> string" where
  \<comment> \<open>\<^verbatim>\<open>emotion.charAt(0).toUpperCase() + emotion.slice(1)\<close>\<close>
  "capitalize str = map toUpperCase_char (take 1 str) @ drop 1 str"

section \<open>The metrics record\<close>

record MetricsRecord =
  posture :: int
  headTilt :: int
  eyeContact :: string
  emotion :: string
  wpm :: int
  fillers :: int
  volume :: real
  pitch :: real
  tone :: string

definition default_metrics :: MetricsRecord where
  \<comment> \<open>The initial value given to \<^verbatim>\<open>useState\<close> in the training page.\<close>
  "default_metrics =
     \<lparr>posture = 0, headTilt = 0, eyeContact = ''Unknown'', emotion = ''Detecting...'',
      wpm = 0, fillers = 0, volume = 0, pitch = 0, tone = ''Neutral''\<rparr>"

definition live_tips :: "MetricsRecord \<Rightarrow> string list" where
  \<comment> \<open>The live-tips block of the render function, one string per paragraph shown (the
      leading pictograph of each tip is left out).\<close>
  "live_tips m =
     (if posture m < 60 then [''Straighten your posture''] else [])
     @ (if eyeContact m \<noteq> ''Good'' then [''Maintain eye contact''] else [])
     @ (if volume m < 10 then [''Speak louder''] else [])
     @ (if fillers m > 5 then [''Reduce filler words''] else [])
     @ (if tone m = ''Energetic'' then [''Great energy!''] else [])"

section \<open>Pose analysis\<close>

record landmark =
  lm_x :: real
  lm_y :: real

definition nth_opt :: "'a list \<Rightarrow> nat \<Rightarrow> 'a option" where
  \<comment> \<open>Indexing a JavaScript array: \<^verbatim>\<open>undefined\<close> beyond the end.\<close>
  "nth_opt xs i = (if i < length xs then Some (xs ! i) else None)"

definition normalizeTilt :: "real \<Rightarrow> real" where
  \<comment> \<open>The two conditional statements applied to \<^verbatim>\<open>rawTilt\<close>, in the order of the source.\<close>
  "normalizeTilt rawTilt =
     (let r1 = (if rawTilt > 90 then rawTilt - 180 else rawTilt)
      in if r1 < - 90 then r1 + 180 else r1)"

definition headTilt_of :: "real \<Rightarrow> int" where
  "headTilt_of rawTilt = toFixed0 (normalizeTilt rawTilt)"

definition pose_onResults :: "landmark list option \<Rightarrow> MetricsRecord \<Rightarrow> MetricsRecord" where
  \<comment> \<open>The callback given to \<^verbatim>\<open>pose.onResults\<close>; the argument is \<^verbatim>\<open>res.poseLandmarks\<close>.
      The threshold \<^verbatim>\<open>0.05\<close> is taken as the real \<open>1/20\<close>. The posture score, the
      angle and the distance of the nose from the centre are exact reals here and
      double-precision results in the source, so a value next to a rounding tie or to the
      threshold can come out differently (shoulders at heights 0.4 and 0.43375: posture
      86 here, 87 in the source, whose double score is exactly 86.5).\<close>
  "pose_onResults poseLandmarks m =
     (case poseLandmarks of
        None \<Rightarrow> m
      | Some lm \<Rightarrow>
          (case (nth_opt lm 11, nth_opt lm 12, nth_opt lm 0) of
             (Some L, Some R, Some nose) \<Rightarrow>
               (let shoulderTilt = (lm_y R - lm_y L) * 100;
                    postureScore = max 0 (100 - \<bar>shoulderTilt\<bar> * 4);
                    rawTilt = atan2 (lm_y R - lm_y L) (lm_x R - lm_x L) * (180 / pi);
                    eye = (if \<bar>lm_x nose - 1 / 2\<bar> < 1 / 20 then ''Good'' else ''Looking Away'')
                in m\<lparr>posture := toFixed0 postureScore,
                     headTilt := headTilt_of rawTilt,
                     eyeContact := eye\<rparr>)
           | _ \<Rightarrow> m))"

section \<open>Expression sampling\<close>

definition emotion_write :: "(string \<times> real) list option \<Rightarrow> MetricsRecord \<Rightarrow> MetricsRecord" where
  \<comment> \<open>The part of the interval callback after the \<^verbatim>\<open>await\<close>. The argument is
      \<^verbatim>\<open>Object.entries(detections.expressions)\<close>, or \<open>None\<close> when there is no detection.
      The sort is stable and descending in the probability; with no entry at all, reading
      \<^verbatim>\<open>sorted[0][0]\<close> throws inside the callback and nothing is written.\<close>
  "emotion_write detections m =
     (case detections of
        None \<Rightarrow> m
      | Some entries \<Rightarrow>
          (case sort_key (\<lambda>e. - snd e) entries of
             [] \<Rightarrow> m
           | e # _ \<Rightarrow> m\<lparr>emotion := capitalize (fst e)\<rparr>))"

section \<open>Speech recognition and the linguistic metrics\<close>

record recognition =
  wordCount :: nat
  fillerCount :: nat
  startTime :: int

record SpeechRecognitionEvent =
  resultIndex :: nat
  results :: "string list"

definition fillers_lexicon :: "string list" where
  "fillers_lexicon = [''um'', ''uh'', ''like'', ''basically'', ''you know'']"

definition batch_words :: "SpeechRecognitionEvent \<Rightarrow> string list" where
  \<comment> \<open>The loop that concatenates the lower-cased transcripts from \<^verbatim>\<open>resultIndex\<close> on,
      then \<^verbatim>\<open>split(/\s+/).filter(Boolean)\<close>. Each element of \<open>results\<close> is the transcript
      of the first alternative of one result.\<close>
  "batch_words event =
     filter (\<lambda>w. w \<noteq> [])
       (split_ws [] (concat (map toLowerCase (drop (resultIndex event) (results event)))))"

definition batch_wpm :: "nat \<Rightarrow> int \<Rightarrow> int \<Rightarrow> int" where
  \<comment> \<open>\<^verbatim>\<open>elapsedMinutes > 0 ? Math.round(wordCount / elapsedMinutes) : 0\<close>, for the word
      count after the batch, the start time and the current time in milliseconds. The
      model rounds the exact quotient; the source rounds the quotient of two
      double-precision divisions, which can be one less when the exact quotient ends in
      one half (3 words after 1600 ms: 113 here, 112 in the source, since the double
      quotient is just below 112.5). The sign test is the same in both.\<close>
  "batch_wpm wc start now =
     (let elapsedMinutes = real_of_int (now - start) / 60000
      in if elapsedMinutes > 0 then Math_round (real wc / elapsedMinutes) else 0)"

definition onresult ::
  "SpeechRecognitionEvent \<Rightarrow> int \<Rightarrow> recognition \<times> MetricsRecord \<Rightarrow> recognition \<times> MetricsRecord" where
  \<comment> \<open>\<^verbatim>\<open>recognition.onresult\<close>. The closure variables \<^verbatim>\<open>wordCount\<close>, \<^verbatim>\<open>fillerCount\<close>
      and \<^verbatim>\<open>startTime\<close> are the fields of the recognition; the second argument is
      \<^verbatim>\<open>Date.now()\<close>.\<close>
  "onresult event now st =
     (let words = batch_words event;
          wc = wordCount (fst st) + length words;
          fc = fillerCount (fst st) + length (filter (\<lambda>w. w \<in> set fillers_lexicon) words);
          r = (fst st)\<lparr>wordCount := wc, fillerCount := fc\<rparr>;
          w = batch_wpm wc (startTime (fst st)) now
      in if length words < 3 \<and> w < 40 then (r, snd st)
         else (r, (snd st)\<lparr>wpm := w, fillers := int fc\<rparr>))"

section \<open>Audio uplink\<close>

datatype readyState = CONNECTING | OPEN | CLOSING | CLOSED

definition pcm16_sample :: "real \<Rightarrow> 16 word" where
  \<comment> \<open>\<^verbatim>\<open>pcm16[i] = input[i] * 0x7fff\<close>. A sample is a 32-bit float and the factor has 15
      bits, so the double-precision product is exact.\<close>
  "pcm16_sample v = ToInt16 (v * 32767)"

definition onaudioprocess :: "readyState \<Rightarrow> real list \<Rightarrow> 16 word list option" where
  \<comment> \<open>\<^verbatim>\<open>processor.onaudioprocess\<close>: the frame sent, or \<open>None\<close> when the chunk is dropped.\<close>
  "onaudioprocess ws_state input =
     (if ws_state = OPEN then Some (map pcm16_sample input) else None)"

section \<open>The training page inside the application\<close>

text \<open>
  One record holds the state of the application component (\<open>view\<close>, \<open>sessionData\<close>,
  \<open>app_sessionId\<close>), the state and the refs of the training page, and what the page has
  done to its surroundings: the platform calls that returned, the bodies posted to the
  session-log endpoint, the alerts shown and the audio frames sent. A ref to a platform
  object is \<open>True\<close> when its \<^verbatim>\<open>current\<close> is not null. The recognition objects created
  so far are kept in a store, \<open>recognitionRef\<close> being an index into it, since a
  recognition that was stopped may still deliver a result to its handler.

  The effect that sets up the pose detector, the camera and the interval timer runs once
  per render in which \<^verbatim>\<open>isSessionActive\<close> has changed. Each run is kept as an \<open>effect\<close>:
  the value of \<^verbatim>\<open>isSessionActive\<close> its closures captured, whether its \<^verbatim>\<open>startCamera\<close>
  is still awaiting, and whether its camera and its timer exist and have not been stopped.
  The cleanup of a run stops what exists when it is called; a camera and a timer created
  afterwards, by a \<^verbatim>\<open>startCamera\<close> that was still awaiting, are never stopped.

  Callbacks run one at a time. The session toggle is run to its end in one step, the
  answers to its requests being part of its input; the button calls the handler of the
  latest render, so the handler reads the current state. Every other awaited operation is
  split into the step that starts it and the step that goes on after it: the pose
  inference, the expression classification, \<^verbatim>\<open>startCamera\<close> and the microphone request
  of \<^verbatim>\<open>startAudioStreaming\<close>. The video stream kept in \<^verbatim>\<open>streamRef\<close> is left out.
\<close>

datatype view = home | training | report | history

record snapshot =
  snap_metrics :: MetricsRecord
  session_id :: "string option"

datatype platform_call =
  SpeechRecognition_start | SpeechRecognition_stop
  | WebSocket_new | WebSocket_close
  | MediaStreamTrack_stop | ScriptProcessor_disconnect | AudioContext_close

datatype response = Failed | JsonNull | JsonObject "string option"

record effect =
  eff_isSessionActive :: bool
  startCamera_pending :: bool
  camera_live :: bool
  interval_live :: bool

record world =
  view :: view
  sessionData :: "snapshot option"
  app_sessionId :: "string option"
  metrics :: MetricsRecord
  error :: "string option"
  isSessionActive :: bool
  sessionId :: "string option"
  recognitionRef :: "nat option"
  wsRef :: bool
  audioCtxRef :: bool
  processorRef :: bool
  audioStreamRef :: bool
  effects :: "effect list"
  recognitions :: "recognition list"
  micPending :: nat
  poseInFlight :: nat
  emotionInFlight :: nat
  calls :: "platform_call list"
  requests :: "snapshot list"
  alerts :: "string list"
  frames :: "16 word list list"

record toggle_env =
  random_id :: string
  speech_supported :: bool
  now_ms :: int
  throwing :: "platform_call list"
  response1 :: response
  response2 :: response

datatype outcome = is_Returned: Returned (world_of: world) | Threw (world_of: world)

definition new_effect :: "bool \<Rightarrow> effect" where
  \<comment> \<open>A run of the effect in a render with the given \<^verbatim>\<open>isSessionActive\<close>: \<^verbatim>\<open>camera\<close> and
      \<^verbatim>\<open>emotionInterval\<close> are null and \<^verbatim>\<open>startCamera\<close> has been called.\<close>
  "new_effect active =
     \<lparr>eff_isSessionActive = active, startCamera_pending = True,
      camera_live = False, interval_live = False\<rparr>"

definition cleanup :: "effect \<Rightarrow> effect" where
  \<comment> \<open>\<^verbatim>\<open>if (camera) camera.stop(); if (emotionInterval) clearInterval(emotionInterval)\<close>\<close>
  "cleanup e = e\<lparr>camera_live := False, interval_live := False\<rparr>"

definition cleanup_current :: "effect list \<Rightarrow> effect list" where
  \<comment> \<open>Only the latest run is cleaned up; the earlier ones were, when they were replaced.\<close>
  "cleanup_current es = (if es = [] then [] else butlast es @ [cleanup (last es)])"

definition setIsSessionActive :: "bool \<Rightarrow> world \<Rightarrow> world" where
  \<comment> \<open>The state setter together with the render it causes: when the value changes, the
      effect is cleaned up and run again with the new value.\<close>
  "setIsSessionActive b s =
     (if isSessionActive s = b then s
      else s\<lparr>isSessionActive := b, effects := cleanup_current (effects s) @ [new_effect b]\<rparr>)"

definition TrainingPage_mount :: "snapshot option \<Rightarrow> string option \<Rightarrow> world" where
  \<comment> \<open>The application has just switched to the training view and the page is freshly
      mounted, its effect run once. The arguments are what the application holds from
      earlier sessions (\<open>None\<close> for the five-key object it starts with).\<close>
  "TrainingPage_mount sd sid =
     \<lparr>view = training, sessionData = sd, app_sessionId = sid,
      metrics = default_metrics, error = None, isSessionActive = False, sessionId = None,
      recognitionRef = None, wsRef = False, audioCtxRef = False, processorRef = False,
      audioStreamRef = False, effects = [new_effect False], recognitions = [],
      micPending = 0, poseInFlight = 0, emotionInFlight = 0,
      calls = [], requests = [], alerts = [], frames = []\<rparr>"

fun try_calls :: "platform_call list \<Rightarrow> platform_call list \<Rightarrow> platform_call list" where
  \<comment> \<open>The statements of a \<^verbatim>\<open>try\<close> block, each one platform call: the calls that
      returned, up to the first one that throws.\<close>
  "try_calls thr [] = []"
| "try_calls thr (c # cs) = (if c \<in> set thr then [] else c # try_calls thr cs)"

definition stopAudioStreaming_body :: "world \<Rightarrow> platform_call list" where
  \<comment> \<open>The four statements of the \<^verbatim>\<open>try\<close> block; optional chaining skips the call on a
      null ref.\<close>
  "stopAudioStreaming_body s =
     (if wsRef s then [WebSocket_close] else [])
     @ (if audioStreamRef s then [MediaStreamTrack_stop] else [])
     @ (if processorRef s then [ScriptProcessor_disconnect] else [])
     @ (if audioCtxRef s then [AudioContext_close] else [])"

definition stopAudioStreaming :: "platform_call list \<Rightarrow> world \<Rightarrow> outcome" where
  \<comment> \<open>The \<^verbatim>\<open>catch\<close> clause only logs, so the function always returns; the
      \<^verbatim>\<open>finally\<close> clause clears the four refs.\<close>
  "stopAudioStreaming thr s =
     Returned (s\<lparr>calls := calls s @ try_calls thr (stopAudioStreaming_body s),
                  wsRef := False, audioStreamRef := False,
                  processorRef := False, audioCtxRef := False\<rparr>)"

definition stopSpeechRecognition :: "platform_call list \<Rightarrow> world \<Rightarrow> outcome" where
  \<comment> \<open>No \<^verbatim>\<open>try\<close> here: if \<^verbatim>\<open>stop()\<close> throws, the ref is not cleared.\<close>
  "stopSpeechRecognition thr s =
     (case recognitionRef s of
        None \<Rightarrow> Returned s
      | Some r \<Rightarrow>
          if SpeechRecognition_stop \<in> set thr then Threw s
          else Returned (s\<lparr>calls := calls s @ [SpeechRecognition_stop], recognitionRef := None\<rparr>))"

definition startSpeechRecognition :: "toggle_env \<Rightarrow> world \<Rightarrow> world" where
  "startSpeechRecognition env s =
     (if speech_supported env
      then s\<lparr>recognitions := recognitions s @ [\<lparr>wordCount = 0, fillerCount = 0, startTime = now_ms env\<rparr>],
             recognitionRef := Some (length (recognitions s)),
             calls := calls s @ [SpeechRecognition_start]\<rparr>
      else s\<lparr>alerts := alerts s @ [''Speech recognition not supported in this browser.'']\<rparr>)"

definition startAudioStreaming :: "world \<Rightarrow> world" where
  \<comment> \<open>Up to \<^verbatim>\<open>await navigator.mediaDevices.getUserMedia\<close>: the socket is created and its
      ref set, and the microphone request is outstanding.\<close>
  "startAudioStreaming s =
     s\<lparr>wsRef := True, calls := calls s @ [WebSocket_new], micPending := micPending s + 1\<rparr>"

definition startAudioStreaming_resume :: "bool \<Rightarrow> world \<Rightarrow> world" where
  \<comment> \<open>After the \<^verbatim>\<open>await\<close>, whatever the session has become in between: with the
      microphone granted the stream, the audio context and the processor are created and
      their refs set; otherwise the \<^verbatim>\<open>catch\<close> clause sets the error.\<close>
  "startAudioStreaming_resume granted s =
     (if 0 < micPending s
      then if granted
           then s\<lparr>micPending := micPending s - 1,
                  audioStreamRef := True, audioCtxRef := True, processorRef := True\<rparr>
           else s\<lparr>micPending := micPending s - 1, error := Some ''Microphone access failed.''\<rparr>
      else s)"

definition startCamera_resume :: "nat \<Rightarrow> bool \<Rightarrow> world \<Rightarrow> world" where
  \<comment> \<open>The \<^verbatim>\<open>startCamera\<close> of the effect run with the given index gets past its awaits:
      the camera is created and started and the timer is set, or, when loading the
      models or opening the camera failed, the \<^verbatim>\<open>catch\<close> clause sets the error.\<close>
  "startCamera_resume i ok s =
     (if i < length (effects s) \<and> startCamera_pending (effects s ! i)
      then if ok
           then s\<lparr>effects := (effects s)
                    [i := (effects s ! i)\<lparr>startCamera_pending := False,
                                          camera_live := True, interval_live := True\<rparr>]\<rparr>
           else s\<lparr>effects := (effects s)[i := (effects s ! i)\<lparr>startCamera_pending := False\<rparr>],
                  error := Some ''Unable to access camera or load models.''\<rparr>
      else s)"

definition handleEndSession :: "response \<Rightarrow> snapshot \<Rightarrow> world \<Rightarrow> world" where
  \<comment> \<open>The application's handler. With a \<^verbatim>\<open>null\<close> body, \<^verbatim>\<open>result.session_id\<close> throws
      after \<^verbatim>\<open>setSessionData\<close> has run.\<close>
  "handleEndSession resp snap s =
     (let s1 = s\<lparr>requests := requests s @ [snap]\<rparr>;
          msg = ''Backend not reachable. Make sure FastAPI is running on port 8010.''
      in case resp of
           Failed \<Rightarrow> s1\<lparr>alerts := alerts s1 @ [msg]\<rparr>
         | JsonNull \<Rightarrow> s1\<lparr>sessionData := Some snap, alerts := alerts s1 @ [msg]\<rparr>
         | JsonObject sid \<Rightarrow> s1\<lparr>sessionData := Some snap, app_sessionId := sid, view := report\<rparr>)"

definition handleSessionToggle :: "toggle_env \<Rightarrow> world \<Rightarrow> world" where
  \<comment> \<open>An exception of \<^verbatim>\<open>stopSpeechRecognition\<close> ends the handler where it is.\<close>
  "handleSessionToggle env s =
     (if isSessionActive s then
        (case stopSpeechRecognition (throwing env) s of
           Threw s1 \<Rightarrow> s1
         | Returned s1 \<Rightarrow>
             (case stopAudioStreaming (throwing env) s1 of
                Threw s2 \<Rightarrow> s2
              | Returned s2 \<Rightarrow>
                  (let s3 = (setIsSessionActive False s2)
                              \<lparr>requests := requests s2 @ [\<lparr>snap_metrics = metrics s, session_id = None\<rparr>]\<rparr>
                   in case response1 env of
                        JsonObject sid \<Rightarrow>
                          handleEndSession (response2 env)
                            \<lparr>snap_metrics = metrics s, session_id = sid\<rparr> (s3\<lparr>sessionId := sid\<rparr>)
                      | _ \<Rightarrow>
                          handleEndSession (response2 env)
                            \<lparr>snap_metrics = metrics s, session_id = None\<rparr> s3)))
      else
        setIsSessionActive True
          (startAudioStreaming
             (startSpeechRecognition env (s\<lparr>sessionId := Some (random_id env)\<rparr>))))"

definition camera_onFrame :: "nat \<Rightarrow> world \<Rightarrow> world" where
  \<comment> \<open>The \<^verbatim>\<open>onFrame\<close> of the camera of the effect run with the given index, if that
      camera is running: \<^verbatim>\<open>if (isSessionActive) await pose.send(...)\<close> with the value the
      run captured. The inference is started; the model does not bound how many are
      outstanding.\<close>
  "camera_onFrame i s =
     (if i < length (effects s) \<and> camera_live (effects s ! i)
         \<and> eff_isSessionActive (effects s ! i)
      then s\<lparr>poseInFlight := poseInFlight s + 1\<rparr> else s)"

definition pose_deliver :: "landmark list option \<Rightarrow> world \<Rightarrow> world" where
  \<comment> \<open>An inference that was started delivers its result to \<^verbatim>\<open>pose.onResults\<close>.\<close>
  "pose_deliver res s =
     (if 0 < poseInFlight s
      then s\<lparr>poseInFlight := poseInFlight s - 1, metrics := pose_onResults res (metrics s)\<rparr>
      else s)"

definition emotion_tick :: "nat \<Rightarrow> bool \<Rightarrow> world \<Rightarrow> world" where
  \<comment> \<open>The interval callback of the effect run with the given index, if its timer is set,
      up to the \<^verbatim>\<open>await\<close>. The test of \<^verbatim>\<open>isSessionActive\<close> reads the value the run
      captured; the second argument says whether the video element exists with
      \<^verbatim>\<open>readyState\<close> at least 2.\<close>
  "emotion_tick i video_ready s =
     (if i < length (effects s) \<and> interval_live (effects s ! i)
         \<and> eff_isSessionActive (effects s ! i) \<and> video_ready
      then s\<lparr>emotionInFlight := emotionInFlight s + 1\<rparr> else s)"

definition emotion_deliver :: "(string \<times> real) list option \<Rightarrow> world \<Rightarrow> world" where
  \<comment> \<open>A classification that was started resolves and the callback goes on.\<close>
  "emotion_deliver det s =
     (if 0 < emotionInFlight s
      then s\<lparr>emotionInFlight := emotionInFlight s - 1, metrics := emotion_write det (metrics s)\<rparr>
      else s)"

definition speech_deliver :: "nat \<Rightarrow> SpeechRecognitionEvent \<Rightarrow> int \<Rightarrow> world \<Rightarrow> world" where
  \<comment> \<open>The recognition with the given index in the store fires its \<^verbatim>\<open>onresult\<close>.\<close>
  "speech_deliver i event now s =
     (if i < length (recognitions s)
      then (let st = onresult event now (recognitions s ! i, metrics s)
            in s\<lparr>recognitions := (recognitions s)[i := fst st], metrics := snd st\<rparr>)
      else s)"

definition audio_deliver :: "readyState \<Rightarrow> real list \<Rightarrow> world \<Rightarrow> world" where
  \<comment> \<open>A processor fires \<^verbatim>\<open>onaudioprocess\<close>; the first argument is the state of the socket
      its closure holds.\<close>
  "audio_deliver ws_state input s =
     (case onaudioprocess ws_state input of
        None \<Rightarrow> s
      | Some frame \<Rightarrow> s\<lparr>frames := frames s @ [frame]\<rparr>)"

datatype event =
  Toggle toggle_env
  | StartCameraDone nat bool
  | UserMedia bool
  | CameraFrame nat
  | PoseResults "landmark list option"
  | EmotionTick nat bool
  | EmotionResults "(string \<times> real) list option"
  | SpeechResult nat SpeechRecognitionEvent int
  | AudioProcess readyState "real list"

definition step :: "event \<Rightarrow> world \<Rightarrow> world" where
  \<comment> \<open>One callback of the training page. Once the application has left the training view
      the page is unmounted: its button is gone and its state setters have no effect.\<close>
  "step e s =
     (if view s \<noteq> training then s
      else case e of
             Toggle env \<Rightarrow> handleSessionToggle env s
           | StartCameraDone i ok \<Rightarrow> startCamera_resume i ok s
           | UserMedia granted \<Rightarrow> startAudioStreaming_resume granted s
           | CameraFrame i \<Rightarrow> camera_onFrame i s
           | PoseResults res \<Rightarrow> pose_deliver res s
           | EmotionTick i video_ready \<Rightarrow> emotion_tick i video_ready s
           | EmotionResults det \<Rightarrow> emotion_deliver det s
           | SpeechResult i ev now \<Rightarrow> speech_deliver i ev now s
           | AudioProcess ws_state input \<Rightarrow> audio_deliver ws_state input s)"

fun run :: "event list \<Rightarrow> world \<Rightarrow> world" where
  "run [] s = s"
| "run (e # es) s = run es (step e s)"

fun is_toggle :: "event \<Rightarrow> bool" where
  "is_toggle (Toggle env) = True"
| "is_toggle e = False"

section \<open>Inputs used in the examples\<close>

definition offline_env :: toggle_env where
  \<comment> \<open>Speech recognition available, no teardown call throws, the session-log service
      unreachable.\<close>
  "offline_env =
     \<lparr>random_id = ''session_k3x9q2a'', speech_supported = True, now_ms = 0,
      throwing = [], response1 = Failed, response2 = Failed\<rparr>"

definition online_env :: toggle_env where
  \<comment> \<open>The same with the service answering both requests.\<close>
  "online_env =
     offline_env\<lparr>response1 := JsonObject (Some ''a1''), response2 := JsonObject (Some ''b2'')\<rparr>"

definition level_pose :: "landmark list option" where
  \<comment> \<open>Thirteen landmarks: the nose (index 0) at the centre, the shoulders (indices 11 and
      12) level.\<close>
  "level_pose =
     Some (\<lparr>lm_x = 1 / 2, lm_y = 3 / 10\<rparr> # replicate 10 \<lparr>lm_x = 0, lm_y = 0\<rparr>
           @ [\<lparr>lm_x = 3 / 10, lm_y = 2 / 5\<rparr>, \<lparr>lm_x = 7 / 10, lm_y = 2 / 5\<rparr>])"

definition happy_face :: "(string \<times> real) list option" where
  "happy_face = Some [(''neutral'', 1 / 10), (''happy'', 4 / 5), (''sad'', 1 / 10)]"

definition two_fillers :: SpeechRecognitionEvent where
  "two_fillers = \<lparr>resultIndex = 0, results = [''Um uh'']\<rparr>"

section \<open>Rounding, truncation and the raw angle\<close>

lemma trunc_bounds:
  assumes "- 1 \<le> v" "v \<le> 1"
  shows "- 32767 \<le> ToIntegerOrInfinity (v * 32767) \<and> ToIntegerOrInfinity (v * 32767) \<le> 32767"
  using assms unfolding ToIntegerOrInfinity_def
  by (auto simp: le_floor_iff floor_le_iff ceiling_le_iff le_ceiling_iff)

lemma sint16_of_int: "- 32768 \<le> k \<Longrightarrow> k < 32768 \<Longrightarrow> sint (word_of_int k :: 16 word) = k"
  by (simp add: signed_of_int signed_take_bit_int_eq_self)

lemma trunc_error: "\<bar>real_of_int (ToIntegerOrInfinity v) - v\<bar> < 1"
  unfolding ToIntegerOrInfinity_def by (auto simp: abs_if) linarith+

lemma sint_pcm16_sample:
  assumes "- 1 \<le> v" "v \<le> 1"
  shows "sint (pcm16_sample v) = ToIntegerOrInfinity (v * 32767)"
  using trunc_bounds[OF assms] unfolding pcm16_sample_def ToInt16_def
  by (intro sint16_of_int) auto

lemma atan2_range: "- pi < atan2 dy dx \<and> atan2 dy dx \<le> pi"
proof -
  have a: "- (pi / 2) < arctan (dy / dx)" "arctan (dy / dx) < pi / 2"
    by (rule arctan_lbound, rule arctan_ubound)
  have b: "dx < 0 \<Longrightarrow> 0 \<le> dy \<Longrightarrow> arctan (dy / dx) \<le> 0"
    by (simp add: divide_nonneg_neg arctan_le_zero_iff)
  have c: "dx < 0 \<Longrightarrow> dy < 0 \<Longrightarrow> 0 < arctan (dy / dx)"
    by (simp add: divide_neg_neg zero_less_arctan_iff)
  have "0 < pi" by simp
  with a b c show ?thesis unfolding atan2_def by (auto; linarith)
qed

text \<open>The raw angle the pose callback computes lies in the range the claim on the head
  tilt starts from.\<close>

lemma rawTilt_range: "- 180 < atan2 dy dx * (180 / pi) \<and> atan2 dy dx * (180 / pi) \<le> 180"
proof -
  have p: "0 < pi" by simp
  have r: "- pi < atan2 dy dx" "atan2 dy dx \<le> pi"
    using atan2_range[of dy dx] by simp_all
  have "- 180 * pi < atan2 dy dx * 180"
    using r(1) by simp
  then have lo: "- 180 < atan2 dy dx * (180 / pi)"
    using p by (simp add: field_simps)
  have "atan2 dy dx * 180 \<le> 180 * pi"
    using r(2) by simp
  then have hi: "atan2 dy dx * (180 / pi) \<le> 180"
    using p by (simp add: field_simps)
  from lo hi show ?thesis by simp
qed

section \<open>Audio samples\<close>

text \<open>
  Claim C5, as the code has it. A sample \<open>v\<close> in \<open>[-1, 1]\<close> is stored as \<open>v * 32767\<close>
  truncated towards zero (the store into the 16-bit array rounds nothing), the 16-bit
  value does not wrap, and dividing it by 32767 gives a number less than one quantization
  step \<open>1/32767\<close> away from \<open>v\<close>.
\<close>

theorem pcm16_sample_truncates:
  assumes "- 1 \<le> v" and "v \<le> 1"
  shows "sint (pcm16_sample v) = ToIntegerOrInfinity (v * 32767)
         \<and> \<bar>real_of_int (sint (pcm16_sample v)) / 32767 - v\<bar> < 1 / 32767"
proof -
  have eq: "sint (pcm16_sample v) = ToIntegerOrInfinity (v * 32767)"
    by (rule sint_pcm16_sample[OF assms])
  have "\<bar>real_of_int (ToIntegerOrInfinity (v * 32767)) - v * 32767\<bar> < 1"
    by (rule trunc_error)
  then have "\<bar>real_of_int (ToIntegerOrInfinity (v * 32767)) / 32767 - v\<bar> < 1 / 32767"
    by (simp add: abs_if field_simps split: if_splits)
  with eq show ?thesis by simp
qed

theorem pcm16_sample_truncates_witness:
  "- 1 \<le> (1 / 4 :: real) \<and> (1 / 4 :: real) \<le> 1
   \<and> sint (pcm16_sample (1 / 4)) = 8191
   \<and> \<bar>real_of_int (sint (pcm16_sample (1 / 4))) / 32767 - 1 / 4\<bar> < 1 / 32767"
  using pcm16_sample_truncates[of "1 / 4"]
  by (simp add: ToIntegerOrInfinity_def)

text \<open>
  Claim C5 as stated fails: the sample \<open>1/4\<close> gives \<open>8191.75\<close>, which rounds to 8192,
  and the value stored is 8191.
\<close>

theorem pcm16_sample_not_rounded:
  "sint (pcm16_sample (1 / 4)) = 8191 \<and> Math_round (1 / 4 * 32767) = 8192"
  by (simp add: pcm16_sample_def ToInt16_def ToIntegerOrInfinity_def Math_round_def)

section \<open>Head tilt\<close>

text \<open>
  Claim C8. For every raw shoulder-line angle in \<open>(-180, 180]\<close> degrees, subtracting 180
  above 90, then adding 180 below -90, then rounding to an integer gives a head tilt in
  \<open>[-90, 90]\<close>.
\<close>

theorem headTilt_of_range:
  assumes "- 180 < rawTilt" and "rawTilt \<le> 180"
  shows "- 90 \<le> headTilt_of rawTilt \<and> headTilt_of rawTilt \<le> 90"
  using assms unfolding headTilt_of_def toFixed0_def normalizeTilt_def Let_def
  by (auto simp: le_floor_iff floor_le_iff) linarith+

theorem headTilt_of_range_witness:
  "- 180 < (135 :: real) \<and> (135 :: real) \<le> 180 \<and> headTilt_of 135 = - 45
   \<and> - 90 \<le> headTilt_of 135 \<and> headTilt_of 135 \<le> 90"
  using headTilt_of_range[of 135]
  by (simp add: headTilt_of_def toFixed0_def normalizeTilt_def)

section \<open>The noise guard of the transcript handler\<close>

lemma batch_words_two_fillers: "batch_words two_fillers = [''um'', ''uh'']"
  by (simp add: two_fillers_def batch_words_def toLowerCase_def toLowerCase_char_def isSpace_def)

lemma batch_wpm_slow: "batch_wpm (Suc (Suc 0)) 0 60000 = 2"
  by (simp add: batch_wpm_def Math_round_def)

lemma batch_wpm_fast: "batch_wpm (Suc (Suc 0)) 0 2000 = 60"
  by (simp add: batch_wpm_def Math_round_def)

text \<open>
  Claim C1, as the code has it. The handler adds the tokens and the fillers of every batch
  to the two accumulators first and computes the rate from the new word count. A batch of
  fewer than 3 tokens with a rate below 40 then leaves the metrics record as it was; any
  other batch (so one of 2 tokens at a rate of 40 or more) writes the rate and the
  cumulative filler count.
\<close>

theorem onresult_guard:
  assumes "ws = batch_words ev"
    and "w = batch_wpm (wordCount r + length ws) (startTime r) now"
  shows "fst (onresult ev now (r, m))
           = r\<lparr>wordCount := wordCount r + length ws,
                fillerCount := fillerCount r + length (filter (\<lambda>x. x \<in> set fillers_lexicon) ws)\<rparr>
         \<and> snd (onresult ev now (r, m))
           = (if length ws < 3 \<and> w < 40 then m
              else m\<lparr>wpm := w,
                     fillers := int (fillerCount r + length (filter (\<lambda>x. x \<in> set fillers_lexicon) ws))\<rparr>)"
  using assms by (simp add: onresult_def Let_def)

theorem onresult_guard_witness:
  "onresult two_fillers 60000 (\<lparr>wordCount = 0, fillerCount = 0, startTime = 0\<rparr>, default_metrics)
     = (\<lparr>wordCount = 2, fillerCount = 2, startTime = 0\<rparr>, default_metrics)
   \<and> onresult two_fillers 2000 (\<lparr>wordCount = 0, fillerCount = 0, startTime = 0\<rparr>, default_metrics)
     = (\<lparr>wordCount = 2, fillerCount = 2, startTime = 0\<rparr>, default_metrics\<lparr>wpm := 60, fillers := 2\<rparr>)"
  using onresult_guard[of "[''um'', ''uh'']" two_fillers 2 "\<lparr>wordCount = 0, fillerCount = 0, startTime = 0\<rparr>" 60000 default_metrics]
        onresult_guard[of "[''um'', ''uh'']" two_fillers 60 "\<lparr>wordCount = 0, fillerCount = 0, startTime = 0\<rparr>" 2000 default_metrics]
  by (simp add: batch_words_two_fillers batch_wpm_slow batch_wpm_fast fillers_lexicon_def prod_eq_iff)

text \<open>
  Claim C1 as stated fails on the accumulators: one minute into the session the batch
  \<open>Um uh\<close> has 2 tokens and gives a rate of 2, the metrics record is left alone, and yet
  the word count and the filler count both went from 0 to 2.
\<close>

theorem onresult_discarded_batch_counted:
  "length (batch_words two_fillers) = 2
   \<and> batch_wpm (0 + 2) 0 60000 = 2
   \<and> onresult two_fillers 60000 (\<lparr>wordCount = 0, fillerCount = 0, startTime = 0\<rparr>, default_metrics)
     = (\<lparr>wordCount = 2, fillerCount = 2, startTime = 0\<rparr>, default_metrics)"
  by (simp add: onresult_def Let_def batch_words_two_fillers batch_wpm_slow fillers_lexicon_def)

section \<open>Which fields each producer writes\<close>

lemma pose_level:
  "pose_onResults level_pose m = m\<lparr>posture := 100, headTilt := 0, eyeContact := ''Good''\<rparr>"
  by (simp add: pose_onResults_def level_pose_def nth_opt_def nth_append nth_Cons' atan2_def
      headTilt_of_def normalizeTilt_def toFixed0_def)

lemma emotion_happy: "emotion_write happy_face m = m\<lparr>emotion := ''Happy''\<rparr>"
  by (simp add: emotion_write_def happy_face_def capitalize_def toUpperCase_char_def)

lemma pose_onResults_frame:
  "emotion (pose_onResults res m) = emotion m \<and> wpm (pose_onResults res m) = wpm m
   \<and> fillers (pose_onResults res m) = fillers m \<and> volume (pose_onResults res m) = volume m
   \<and> pitch (pose_onResults res m) = pitch m \<and> tone (pose_onResults res m) = tone m"
  by (simp add: pose_onResults_def Let_def split: option.splits)

lemma emotion_write_frame:
  "volume (emotion_write det m) = volume m \<and> pitch (emotion_write det m) = pitch m
   \<and> tone (emotion_write det m) = tone m"
  by (simp add: emotion_write_def split: option.splits list.splits)

lemma onresult_frame:
  "volume (snd (onresult ev now (r, m))) = volume m
   \<and> pitch (snd (onresult ev now (r, m))) = pitch m
   \<and> tone (snd (onresult ev now (r, m))) = tone m"
  by (simp add: onresult_def Let_def)

lemma handleEndSession_metrics: "metrics (handleEndSession resp snap s) = metrics s"
  by (simp add: handleEndSession_def Let_def split: response.splits)

lemma handleSessionToggle_metrics: "metrics (handleSessionToggle env s) = metrics s"
  by (simp add: handleSessionToggle_def stopSpeechRecognition_def stopAudioStreaming_def
      startSpeechRecognition_def startAudioStreaming_def setIsSessionActive_def
      handleEndSession_metrics Let_def
      split: option.splits response.splits)

lemma step_untouched:
  "volume (metrics (step e s)) = volume (metrics s)
   \<and> pitch (metrics (step e s)) = pitch (metrics s)
   \<and> tone (metrics (step e s)) = tone (metrics s)"
proof (cases e)
  case (Toggle env)
  then show ?thesis by (simp add: step_def handleSessionToggle_metrics)
next
  case (StartCameraDone i ok)
  then show ?thesis by (simp add: step_def startCamera_resume_def)
next
  case (UserMedia granted)
  then show ?thesis by (simp add: step_def startAudioStreaming_resume_def)
next
  case (CameraFrame i)
  then show ?thesis by (simp add: step_def camera_onFrame_def)
next
  case (PoseResults res)
  then show ?thesis by (simp add: step_def pose_deliver_def pose_onResults_frame)
next
  case (EmotionTick i r)
  then show ?thesis by (simp add: step_def emotion_tick_def)
next
  case (EmotionResults det)
  then show ?thesis by (simp add: step_def emotion_deliver_def emotion_write_frame)
next
  case (SpeechResult i ev now)
  then show ?thesis
    using onresult_frame[of ev now "recognitions s ! i" "metrics s"]
    by (simp add: step_def speech_deliver_def Let_def)
next
  case (AudioProcess st inp)
  then show ?thesis
    by (simp add: step_def audio_deliver_def split: option.splits)
qed

lemma run_untouched:
  "volume (metrics (run evs s)) = volume (metrics s)
   \<and> pitch (metrics (run evs s)) = pitch (metrics s)
   \<and> tone (metrics (run evs s)) = tone (metrics s)"
proof (induction evs arbitrary: s)
  case Nil
  show ?case by simp
next
  case (Cons e evs)
  from Cons.IH[of "step e s"] step_untouched[of e s] show ?case by simp
qed

text \<open>
  Claim C9. In every state the training view reaches from its mount, whatever callbacks
  ran, the fields volume, pitch and tone hold 0, 0 and \<open>Neutral\<close>; the live tips therefore
  always contain the speak-louder tip and never the positive-energy tip.
\<close>

theorem volume_pitch_tone_never_written:
  "volume (metrics (run evs (TrainingPage_mount sd sid))) = 0
   \<and> pitch (metrics (run evs (TrainingPage_mount sd sid))) = 0
   \<and> tone (metrics (run evs (TrainingPage_mount sd sid))) = ''Neutral''
   \<and> ''Speak louder'' \<in> set (live_tips (metrics (run evs (TrainingPage_mount sd sid))))
   \<and> ''Great energy!'' \<notin> set (live_tips (metrics (run evs (TrainingPage_mount sd sid))))"
proof -
  let ?m = "metrics (run evs (TrainingPage_mount sd sid))"
  have v: "volume ?m = 0" and p: "pitch ?m = 0" and t: "tone ?m = ''Neutral''"
    using run_untouched[of evs "TrainingPage_mount sd sid"]
    by (simp_all add: TrainingPage_mount_def default_metrics_def)
  from v t have "''Speak louder'' \<in> set (live_tips ?m)" "''Great energy!'' \<notin> set (live_tips ?m)"
    by (simp_all add: live_tips_def)
  with v p t show ?thesis by simp
qed

theorem volume_pitch_tone_never_written_witness:
  "volume (metrics (run [Toggle offline_env, StartCameraDone 1 True, CameraFrame 1, PoseResults level_pose]
             (TrainingPage_mount None None))) = 0
   \<and> tone (metrics (run [Toggle offline_env, StartCameraDone 1 True, CameraFrame 1, PoseResults level_pose]
             (TrainingPage_mount None None))) = ''Neutral''
   \<and> ''Speak louder'' \<in> set (live_tips (metrics
         (run [Toggle offline_env, StartCameraDone 1 True, CameraFrame 1, PoseResults level_pose]
            (TrainingPage_mount None None))))"
  using volume_pitch_tone_never_written
          [of "[Toggle offline_env, StartCameraDone 1 True, CameraFrame 1, PoseResults level_pose]" None None]
  by simp

section \<open>Starting a session\<close>

lemma started:
  "handleSessionToggle offline_env (TrainingPage_mount sd sid)
   = (TrainingPage_mount sd sid)\<lparr>isSessionActive := True, sessionId := Some ''session_k3x9q2a'',
        recognitionRef := Some 0, wsRef := True,
        effects := [cleanup (new_effect False), new_effect True],
        recognitions := [\<lparr>wordCount = 0, fillerCount = 0, startTime = 0\<rparr>],
        micPending := 1,
        calls := [SpeechRecognition_start, WebSocket_new]\<rparr>"
  by (simp add: handleSessionToggle_def TrainingPage_mount_def offline_env_def
      startSpeechRecognition_def startAudioStreaming_def setIsSessionActive_def
      cleanup_current_def)

lemma started_online:
  "handleSessionToggle online_env (TrainingPage_mount sd sid)
   = handleSessionToggle offline_env (TrainingPage_mount sd sid)"
  by (simp add: handleSessionToggle_def TrainingPage_mount_def offline_env_def online_env_def
      startSpeechRecognition_def startAudioStreaming_def setIsSessionActive_def)

lemma view_mount: "view (TrainingPage_mount sd sid) = training"
  by (simp add: TrainingPage_mount_def)

lemma started_mic:
  "run [Toggle offline_env, UserMedia True] (TrainingPage_mount sd sid)
   = (TrainingPage_mount sd sid)\<lparr>isSessionActive := True, sessionId := Some ''session_k3x9q2a'',
        recognitionRef := Some 0, wsRef := True, audioCtxRef := True, processorRef := True,
        audioStreamRef := True,
        effects := [cleanup (new_effect False), new_effect True],
        recognitions := [\<lparr>wordCount = 0, fillerCount = 0, startTime = 0\<rparr>],
        calls := [SpeechRecognition_start, WebSocket_new]\<rparr>"
  by (simp add: step_def view_mount started)
     (simp add: startAudioStreaming_resume_def TrainingPage_mount_def)

text \<open>Until the first toggle the page is idle: no effect run has captured an active
  session, nothing is in flight, no recognition exists, and no callback changes the
  metrics record.\<close>

lemma idle_step:
  assumes "\<not> is_toggle e"
    and "\<not> isSessionActive s \<and> poseInFlight s = 0 \<and> emotionInFlight s = 0 \<and> recognitions s = []
         \<and> (\<forall>i < length (effects s). \<not> eff_isSessionActive (effects s ! i))"
  shows "metrics (step e s) = metrics s
         \<and> \<not> isSessionActive (step e s) \<and> poseInFlight (step e s) = 0
         \<and> emotionInFlight (step e s) = 0 \<and> recognitions (step e s) = []
         \<and> (\<forall>i < length (effects (step e s)). \<not> eff_isSessionActive (effects (step e s) ! i))"
proof (cases e)
  case (Toggle env)
  with assms(1) show ?thesis by simp
next
  case (StartCameraDone i ok)
  with assms(2) show ?thesis
    by (simp add: step_def startCamera_resume_def nth_list_update)
next
  case (UserMedia granted)
  with assms(2) show ?thesis
    by (simp add: step_def startAudioStreaming_resume_def)
next
  case (CameraFrame i)
  with assms(2) have "step e s = s"
    by (auto simp: step_def camera_onFrame_def)
  with assms(2) show ?thesis by simp
next
  case (PoseResults res)
  with assms(2) show ?thesis
    by (simp add: step_def pose_deliver_def)
next
  case (EmotionTick i r)
  with assms(2) have "step e s = s"
    by (auto simp: step_def emotion_tick_def)
  with assms(2) show ?thesis by simp
next
  case (EmotionResults det)
  with assms(2) show ?thesis
    by (simp add: step_def emotion_deliver_def)
next
  case (SpeechResult i ev now)
  with assms(2) show ?thesis
    by (simp add: step_def speech_deliver_def)
next
  case (AudioProcess st inp)
  with assms(2) show ?thesis
    by (simp add: step_def audio_deliver_def split: option.splits)
qed

lemma idle_run:
  assumes "filter is_toggle evs = []"
    and "\<not> isSessionActive s \<and> poseInFlight s = 0 \<and> emotionInFlight s = 0 \<and> recognitions s = []
         \<and> (\<forall>i < length (effects s). \<not> eff_isSessionActive (effects s ! i))"
  shows "metrics (run evs s) = metrics s \<and> \<not> isSessionActive (run evs s)"
  using assms
proof (induction evs arbitrary: s)
  case Nil
  then show ?case by simp
next
  case (Cons e evs)
  from Cons.prems(1) have e: "\<not> is_toggle e" and evs: "filter is_toggle evs = []"
    by (simp_all split: if_splits)
  from idle_step[OF e Cons.prems(2)] Cons.IH[OF evs, of "step e s"]
  show ?case by simp
qed

text \<open>
  Claim C4, as the code has it. The start branch of the toggle writes no field of the
  metrics record: after it the session is active and the record is what it was. At the
  first toggle after the page is mounted the record therefore holds the defaults, which
  are its initial value and which nothing has written yet.
\<close>

theorem start_writes_no_metric:
  "(\<not> isSessionActive s \<longrightarrow>
      isSessionActive (handleSessionToggle env s)
      \<and> metrics (handleSessionToggle env s) = metrics s)
   \<and> (filter is_toggle evs = [] \<longrightarrow>
      isSessionActive (handleSessionToggle env (run evs (TrainingPage_mount sd sid)))
      \<and> metrics (handleSessionToggle env (run evs (TrainingPage_mount sd sid))) = default_metrics)"
proof -
  have a: "\<not> isSessionActive s \<Longrightarrow> isSessionActive (handleSessionToggle env s)" for s
    by (simp add: handleSessionToggle_def setIsSessionActive_def startAudioStreaming_def
        startSpeechRecognition_def)
  have b: "filter is_toggle evs = [] \<Longrightarrow>
      metrics (run evs (TrainingPage_mount sd sid)) = default_metrics
      \<and> \<not> isSessionActive (run evs (TrainingPage_mount sd sid))"
    using idle_run[of evs "TrainingPage_mount sd sid"]
    by (simp add: TrainingPage_mount_def new_effect_def)
  from a b show ?thesis by (simp add: handleSessionToggle_metrics)
qed

theorem start_writes_no_metric_witness:
  "isSessionActive (handleSessionToggle offline_env
      (run [StartCameraDone 0 True, EmotionTick 0 True, CameraFrame 0, PoseResults level_pose]
         (TrainingPage_mount None None)))
   \<and> metrics (handleSessionToggle offline_env
      (run [StartCameraDone 0 True, EmotionTick 0 True, CameraFrame 0, PoseResults level_pose]
         (TrainingPage_mount None None))) = default_metrics
   \<and> isSessionActive (handleSessionToggle offline_env ((TrainingPage_mount None None)\<lparr>metrics := default_metrics\<lparr>wpm := 120\<rparr>\<rparr>))
   \<and> metrics (handleSessionToggle offline_env ((TrainingPage_mount None None)\<lparr>metrics := default_metrics\<lparr>wpm := 120\<rparr>\<rparr>)) = default_metrics\<lparr>wpm := 120\<rparr>"
  using start_writes_no_metric[of "(TrainingPage_mount None None)\<lparr>metrics := default_metrics\<lparr>wpm := 120\<rparr>\<rparr>" offline_env
          "[StartCameraDone 0 True, EmotionTick 0 True, CameraFrame 0, PoseResults level_pose]" None None]
  by (simp add: TrainingPage_mount_def)

lemma restart_trace:
  "run [Toggle offline_env, UserMedia True, StartCameraDone 1 True, CameraFrame 1,
        PoseResults level_pose, Toggle offline_env, Toggle offline_env]
        (TrainingPage_mount None None)
   = (TrainingPage_mount None None)\<lparr>
        metrics := default_metrics\<lparr>posture := 100, headTilt := 0, eyeContact := ''Good''\<rparr>,
        isSessionActive := True, sessionId := Some ''session_k3x9q2a'',
        recognitionRef := Some 1, wsRef := True,
        effects := [cleanup (new_effect False),
                    \<lparr>eff_isSessionActive = True, startCamera_pending = False,
                     camera_live = False, interval_live = False\<rparr>,
                    cleanup (new_effect False), new_effect True],
        recognitions := [\<lparr>wordCount = 0, fillerCount = 0, startTime = 0\<rparr>,
                         \<lparr>wordCount = 0, fillerCount = 0, startTime = 0\<rparr>],
        micPending := 1,
        calls := [SpeechRecognition_start, WebSocket_new, SpeechRecognition_stop, WebSocket_close,
                  MediaStreamTrack_stop, ScriptProcessor_disconnect, AudioContext_close,
                  SpeechRecognition_start, WebSocket_new],
        requests := [\<lparr>snap_metrics = default_metrics\<lparr>posture := 100, headTilt := 0, eyeContact := ''Good''\<rparr>, session_id = None\<rparr>,
                     \<lparr>snap_metrics = default_metrics\<lparr>posture := 100, headTilt := 0, eyeContact := ''Good''\<rparr>, session_id = None\<rparr>],
        alerts := [''Backend not reachable. Make sure FastAPI is running on port 8010.'']\<rparr>"
  by (simp add: step_def camera_onFrame_def pose_deliver_def pose_level
      startCamera_resume_def startAudioStreaming_resume_def
      handleSessionToggle_def TrainingPage_mount_def offline_env_def
      stopSpeechRecognition_def stopAudioStreaming_def stopAudioStreaming_body_def
      startSpeechRecognition_def startAudioStreaming_def setIsSessionActive_def
      cleanup_current_def cleanup_def new_effect_def
      handleEndSession_def Let_def)

text \<open>
  Claim C4 as stated fails for a second session in the same training view: after a session
  in which a pose result was written and whose two submissions both failed (so the view
  stays on the training page), the next start leaves posture at 100 and eye contact at
  \<open>Good\<close>, where the defaults are 0 and \<open>Unknown\<close>.
\<close>

theorem restart_keeps_old_metrics:
  "isSessionActive
     (run [Toggle offline_env, UserMedia True, StartCameraDone 1 True, CameraFrame 1,
           PoseResults level_pose, Toggle offline_env, Toggle offline_env]
        (TrainingPage_mount None None))
   \<and> posture (metrics
     (run [Toggle offline_env, UserMedia True, StartCameraDone 1 True, CameraFrame 1,
           PoseResults level_pose, Toggle offline_env, Toggle offline_env]
        (TrainingPage_mount None None))) = 100
   \<and> eyeContact (metrics
     (run [Toggle offline_env, UserMedia True, StartCameraDone 1 True, CameraFrame 1,
           PoseResults level_pose, Toggle offline_env, Toggle offline_env]
        (TrainingPage_mount None None))) = ''Good''
   \<and> posture default_metrics = 0 \<and> eyeContact default_metrics = ''Unknown''"
  unfolding restart_trace
  by (simp add: default_metrics_def TrainingPage_mount_def)

section \<open>Ticks of the expression sampler\<close>





text \<open>A timer that the first run of the effect sets after its cleanup (the session was
  started while \<^verbatim>\<open>startCamera\<close> was still awaiting) is never cleared, and its ticks start
  nothing even though the session is active: its callback captured the idle value.\<close>

lemma leaked_idle_timer_starts_nothing:
  "isSessionActive
     (run [Toggle offline_env, StartCameraDone 0 True, EmotionTick 0 True]
        (TrainingPage_mount None None))
   \<and> interval_live (effects
        (run [Toggle offline_env, StartCameraDone 0 True, EmotionTick 0 True]
           (TrainingPage_mount None None)) ! 0)
   \<and> emotionInFlight
        (run [Toggle offline_env, StartCameraDone 0 True, EmotionTick 0 True]
           (TrainingPage_mount None None)) = 0"
  by (simp add: step_def emotion_tick_def startCamera_resume_def
      handleSessionToggle_def TrainingPage_mount_def offline_env_def
      startSpeechRecognition_def startAudioStreaming_def setIsSessionActive_def
      cleanup_current_def cleanup_def new_effect_def)


section \<open>Callbacks after the end of a session\<close>

lemma ended_offline:
  "run [Toggle offline_env, UserMedia True, StartCameraDone 1 True, CameraFrame 1,
        EmotionTick 1 True, Toggle offline_env] (TrainingPage_mount None None)
   = (TrainingPage_mount None None)\<lparr>sessionId := Some ''session_k3x9q2a'',
        effects := [cleanup (new_effect False),
                    \<lparr>eff_isSessionActive = True, startCamera_pending = False,
                     camera_live = False, interval_live = False\<rparr>,
                    new_effect False],
        recognitions := [\<lparr>wordCount = 0, fillerCount = 0, startTime = 0\<rparr>],
        poseInFlight := 1, emotionInFlight := 1,
        calls := [SpeechRecognition_start, WebSocket_new, SpeechRecognition_stop, WebSocket_close,
                  MediaStreamTrack_stop, ScriptProcessor_disconnect, AudioContext_close],
        requests := [\<lparr>snap_metrics = default_metrics, session_id = None\<rparr>,
                     \<lparr>snap_metrics = default_metrics, session_id = None\<rparr>],
        alerts := [''Backend not reachable. Make sure FastAPI is running on port 8010.'']\<rparr>"
  by (simp add: step_def camera_onFrame_def emotion_tick_def
      startCamera_resume_def startAudioStreaming_resume_def
      handleSessionToggle_def TrainingPage_mount_def offline_env_def
      stopSpeechRecognition_def stopAudioStreaming_def stopAudioStreaming_body_def
      startSpeechRecognition_def startAudioStreaming_def setIsSessionActive_def
      cleanup_current_def cleanup_def new_effect_def
      handleEndSession_def Let_def)

text \<open>
  Claim C2 fails on the code. A session is started, a frame is sent to the pose detector
  and a classification is started, and the session is ended while both are outstanding
  (the service being unreachable, the page stays mounted). At that instant the record
  holds the defaults, which is also what was submitted. The two results then arrive and
  write posture, head tilt, eye contact and emotion.
\<close>

theorem writes_after_session_end:
  "isSessionActive
     (run [Toggle offline_env, UserMedia True, StartCameraDone 1 True, CameraFrame 1,
           EmotionTick 1 True, Toggle offline_env]
        (TrainingPage_mount None None)) = False
   \<and> metrics
     (run [Toggle offline_env, UserMedia True, StartCameraDone 1 True, CameraFrame 1,
           EmotionTick 1 True, Toggle offline_env]
        (TrainingPage_mount None None)) = default_metrics
   \<and> metrics
     (run [PoseResults level_pose, EmotionResults happy_face]
        (run [Toggle offline_env, UserMedia True, StartCameraDone 1 True, CameraFrame 1,
              EmotionTick 1 True, Toggle offline_env]
           (TrainingPage_mount None None)))
     = default_metrics\<lparr>posture := 100, headTilt := 0, eyeContact := ''Good'', emotion := ''Happy''\<rparr>"
  unfolding ended_offline
  by (simp add: step_def pose_deliver_def emotion_deliver_def pose_level emotion_happy
        TrainingPage_mount_def)

section \<open>Teardown\<close>

lemma try_calls_none: "set thr \<inter> set cs = {} \<Longrightarrow> try_calls thr cs = cs"
  by (induction cs) auto

text \<open>A microphone request that is granted only after the session has ended sets the
  three refs of a session that is over; no teardown follows.\<close>

lemma microphone_granted_after_end:
  "\<not> isSessionActive
     (run [Toggle offline_env, Toggle offline_env, UserMedia True] (TrainingPage_mount None None))
   \<and> audioStreamRef
     (run [Toggle offline_env, Toggle offline_env, UserMedia True] (TrainingPage_mount None None))
   \<and> calls
     (run [Toggle offline_env, Toggle offline_env, UserMedia True] (TrainingPage_mount None None))
     = [SpeechRecognition_start, WebSocket_new, SpeechRecognition_stop, WebSocket_close]"
  by (simp add: step_def startAudioStreaming_resume_def
      handleSessionToggle_def TrainingPage_mount_def offline_env_def
      stopSpeechRecognition_def stopAudioStreaming_def stopAudioStreaming_body_def
      startSpeechRecognition_def startAudioStreaming_def setIsSessionActive_def
      cleanup_current_def cleanup_def new_effect_def
      handleEndSession_def Let_def)

text \<open>
  Claim C6, as the code has it. The audio teardown always returns, clears its four refs
  and performs, in order, the calls of the handles it holds up to the first one that
  throws (so all of them when none throws); called again on its own result it does
  nothing. The recognition stop does nothing without a recognition; with one it stops and
  clears it, after which a second call does nothing, unless the platform's stop throws, in
  which case the exception leaves the function.
\<close>

theorem teardown_behaviour:
  "is_Returned (stopAudioStreaming thr s)
   \<and> \<not> wsRef (world_of (stopAudioStreaming thr s))
   \<and> \<not> audioStreamRef (world_of (stopAudioStreaming thr s))
   \<and> \<not> processorRef (world_of (stopAudioStreaming thr s))
   \<and> \<not> audioCtxRef (world_of (stopAudioStreaming thr s))
   \<and> calls (world_of (stopAudioStreaming thr s))
       = calls s @ try_calls thr (stopAudioStreaming_body s)
   \<and> (set thr \<inter> set (stopAudioStreaming_body s) = {}
        \<longrightarrow> calls (world_of (stopAudioStreaming thr s)) = calls s @ stopAudioStreaming_body s)
   \<and> stopAudioStreaming thr2 (world_of (stopAudioStreaming thr s)) = stopAudioStreaming thr s
   \<and> (recognitionRef s = None \<longrightarrow> stopSpeechRecognition thr s = Returned s)
   \<and> (recognitionRef s \<noteq> None \<and> SpeechRecognition_stop \<notin> set thr
        \<longrightarrow> stopSpeechRecognition thr s
              = Returned (s\<lparr>calls := calls s @ [SpeechRecognition_stop], recognitionRef := None\<rparr>)
            \<and> stopSpeechRecognition thr2 (world_of (stopSpeechRecognition thr s))
              = stopSpeechRecognition thr s)
   \<and> (recognitionRef s \<noteq> None \<and> SpeechRecognition_stop \<in> set thr
        \<longrightarrow> stopSpeechRecognition thr s = Threw s)"
proof -
  have a: "is_Returned (stopAudioStreaming thr s)
      \<and> \<not> wsRef (world_of (stopAudioStreaming thr s))
      \<and> \<not> audioStreamRef (world_of (stopAudioStreaming thr s))
      \<and> \<not> processorRef (world_of (stopAudioStreaming thr s))
      \<and> \<not> audioCtxRef (world_of (stopAudioStreaming thr s))
      \<and> calls (world_of (stopAudioStreaming thr s))
          = calls s @ try_calls thr (stopAudioStreaming_body s)"
    by (simp add: stopAudioStreaming_def)
  have b: "set thr \<inter> set (stopAudioStreaming_body s) = {}
        \<longrightarrow> calls (world_of (stopAudioStreaming thr s)) = calls s @ stopAudioStreaming_body s"
    using a by (simp add: try_calls_none)
  have c: "stopAudioStreaming thr2 (world_of (stopAudioStreaming thr s)) = stopAudioStreaming thr s"
    by (simp add: stopAudioStreaming_def stopAudioStreaming_body_def)
  have d: "recognitionRef s = None \<longrightarrow> stopSpeechRecognition thr s = Returned s"
    by (simp add: stopSpeechRecognition_def)
  have e: "recognitionRef s \<noteq> None \<and> SpeechRecognition_stop \<notin> set thr
        \<longrightarrow> stopSpeechRecognition thr s
              = Returned (s\<lparr>calls := calls s @ [SpeechRecognition_stop], recognitionRef := None\<rparr>)
            \<and> stopSpeechRecognition thr2 (world_of (stopSpeechRecognition thr s))
              = stopSpeechRecognition thr s"
    by (auto simp: stopSpeechRecognition_def)
  have f: "recognitionRef s \<noteq> None \<and> SpeechRecognition_stop \<in> set thr
        \<longrightarrow> stopSpeechRecognition thr s = Threw s"
    by (auto simp: stopSpeechRecognition_def)
  from a b c d e f show ?thesis by blast
qed

theorem teardown_behaviour_witness:
  "calls (world_of (stopAudioStreaming [] (run [Toggle offline_env, UserMedia True] (TrainingPage_mount None None))))
     = [SpeechRecognition_start, WebSocket_new, WebSocket_close, MediaStreamTrack_stop,
        ScriptProcessor_disconnect, AudioContext_close]
   \<and> stopSpeechRecognition [] (run [Toggle offline_env, UserMedia True] (TrainingPage_mount None None))
     = Returned ((run [Toggle offline_env, UserMedia True] (TrainingPage_mount None None))
         \<lparr>calls := [SpeechRecognition_start, WebSocket_new, SpeechRecognition_stop],
           recognitionRef := None\<rparr>)
   \<and> stopSpeechRecognition [SpeechRecognition_stop] (run [Toggle offline_env, UserMedia True] (TrainingPage_mount None None))
     = Threw (run [Toggle offline_env, UserMedia True] (TrainingPage_mount None None))
   \<and> stopAudioStreaming [] (TrainingPage_mount None None) = Returned (TrainingPage_mount None None)
   \<and> stopSpeechRecognition [] (TrainingPage_mount None None) = Returned (TrainingPage_mount None None)"
  using teardown_behaviour[of "[]" "run [Toggle offline_env, UserMedia True] (TrainingPage_mount None None)" "[]"]
    teardown_behaviour[of "[SpeechRecognition_stop]" "run [Toggle offline_env, UserMedia True] (TrainingPage_mount None None)" "[]"]
    teardown_behaviour[of "[]" "TrainingPage_mount None None" "[]"]
  unfolding started_mic
  by (simp add: stopAudioStreaming_body_def TrainingPage_mount_def stopAudioStreaming_def)

text \<open>
  Claim C6 as stated fails: in a started session whose socket close throws, the audio
  teardown clears the refs without having stopped the tracks, disconnected the processor
  or closed the audio context (the list of calls that returned is unchanged); and a
  recognition whose stop throws makes the recognition stop throw.
\<close>

theorem teardown_skips_after_failure:
  "audioStreamRef (run [Toggle offline_env, UserMedia True] (TrainingPage_mount None None))
   \<and> stopAudioStreaming [WebSocket_close] (run [Toggle offline_env, UserMedia True] (TrainingPage_mount None None))
     = Returned ((run [Toggle offline_env, UserMedia True] (TrainingPage_mount None None))
         \<lparr>wsRef := False, audioStreamRef := False, processorRef := False, audioCtxRef := False\<rparr>)
   \<and> calls (run [Toggle offline_env, UserMedia True] (TrainingPage_mount None None))
     = [SpeechRecognition_start, WebSocket_new]
   \<and> stopSpeechRecognition [SpeechRecognition_stop] (run [Toggle offline_env, UserMedia True] (TrainingPage_mount None None))
     = Threw (run [Toggle offline_env, UserMedia True] (TrainingPage_mount None None))"
  unfolding started_mic
  by (simp add: stopAudioStreaming_def stopAudioStreaming_body_def stopSpeechRecognition_def
      TrainingPage_mount_def)

section \<open>Ending a session\<close>

text \<open>
  Claim C3, as the code has it. When the training page's submission fails, the session
  still ends and the snapshot goes, without a session identifier, to the application's
  handler, which submits it once more. Only an answer to this second request leads to the
  report view, with the snapshot stored and the identifier taken from that answer; when it
  fails too, an alert is shown and the view stays where it was.
\<close>

theorem failed_submission_resubmitted:
  assumes "isSessionActive s"
    and "SpeechRecognition_stop \<notin> set (throwing env)"
    and "response1 env = Failed"
  shows "\<not> isSessionActive (handleSessionToggle env s)
         \<and> requests (handleSessionToggle env s)
             = requests s @ [\<lparr>snap_metrics = metrics s, session_id = None\<rparr>,
                             \<lparr>snap_metrics = metrics s, session_id = None\<rparr>]
         \<and> (case response2 env of
               JsonObject sid \<Rightarrow>
                 view (handleSessionToggle env s) = report
                 \<and> sessionData (handleSessionToggle env s)
                     = Some \<lparr>snap_metrics = metrics s, session_id = None\<rparr>
                 \<and> app_sessionId (handleSessionToggle env s) = sid
             | JsonNull \<Rightarrow>
                 view (handleSessionToggle env s) = view s
                 \<and> alerts (handleSessionToggle env s)
                     = alerts s @ [''Backend not reachable. Make sure FastAPI is running on port 8010.'']
             | Failed \<Rightarrow>
                 view (handleSessionToggle env s) = view s
                 \<and> sessionData (handleSessionToggle env s) = sessionData s
                 \<and> alerts (handleSessionToggle env s)
                     = alerts s @ [''Backend not reachable. Make sure FastAPI is running on port 8010.''])"
  using assms
  by (cases "recognitionRef s"; cases "response2 env")
     (simp_all add: handleSessionToggle_def stopSpeechRecognition_def stopAudioStreaming_def
        setIsSessionActive_def handleEndSession_def Let_def)

theorem failed_submission_resubmitted_witness:
  "requests (handleSessionToggle offline_env (handleSessionToggle offline_env (TrainingPage_mount None None)))
     = [\<lparr>snap_metrics = default_metrics, session_id = None\<rparr>,
        \<lparr>snap_metrics = default_metrics, session_id = None\<rparr>]
   \<and> \<not> isSessionActive (handleSessionToggle offline_env (handleSessionToggle offline_env (TrainingPage_mount None None)))
   \<and> view (handleSessionToggle offline_env (handleSessionToggle offline_env (TrainingPage_mount None None))) = training
   \<and> view (handleSessionToggle (offline_env\<lparr>response2 := JsonObject (Some ''b2'')\<rparr>)
              (handleSessionToggle offline_env (TrainingPage_mount None None))) = report
   \<and> app_sessionId (handleSessionToggle (offline_env\<lparr>response2 := JsonObject (Some ''b2'')\<rparr>)
              (handleSessionToggle offline_env (TrainingPage_mount None None))) = Some ''b2''"
  using failed_submission_resubmitted[of "handleSessionToggle offline_env (TrainingPage_mount None None)" offline_env]
    failed_submission_resubmitted[of "handleSessionToggle offline_env (TrainingPage_mount None None)"
      "offline_env\<lparr>response2 := JsonObject (Some ''b2'')\<rparr>"]
  unfolding started
  by (simp add: offline_env_def TrainingPage_mount_def)

text \<open>
  Claim C3 as stated fails: with the service unreachable, ending a started session leaves
  the application on the training view with an alert, and no snapshot reaches the report.
\<close>

theorem failed_submission_no_report:
  "isSessionActive (handleSessionToggle offline_env (TrainingPage_mount None None))
   \<and> response1 offline_env = Failed
   \<and> view (handleSessionToggle offline_env (handleSessionToggle offline_env (TrainingPage_mount None None)))
     = training
   \<and> sessionData (handleSessionToggle offline_env (handleSessionToggle offline_env (TrainingPage_mount None None)))
     = None
   \<and> alerts (handleSessionToggle offline_env (handleSessionToggle offline_env (TrainingPage_mount None None)))
     = [''Backend not reachable. Make sure FastAPI is running on port 8010.'']"
  unfolding started
  by (simp add: handleSessionToggle_def TrainingPage_mount_def offline_env_def
      stopSpeechRecognition_def stopAudioStreaming_def stopAudioStreaming_body_def
      setIsSessionActive_def handleEndSession_def Let_def)

text \<open>
  Claim C10. When an active session is ended and the service answers the training page's
  request with an object, two requests are posted to the session-log endpoint: the metrics
  record by the training page, then the same record with the session identifier of the
  answer by the application's handler.
\<close>

theorem double_submission:
  assumes "isSessionActive s"
    and "SpeechRecognition_stop \<notin> set (throwing env)"
    and "response1 env = JsonObject sid"
  shows "requests (handleSessionToggle env s)
           = requests s @ [\<lparr>snap_metrics = metrics s, session_id = None\<rparr>,
                           \<lparr>snap_metrics = metrics s, session_id = sid\<rparr>]"
  using assms
  by (cases "recognitionRef s"; cases "response2 env")
     (simp_all add: handleSessionToggle_def stopSpeechRecognition_def stopAudioStreaming_def
        setIsSessionActive_def handleEndSession_def Let_def)

theorem double_submission_witness:
  "requests (handleSessionToggle online_env (handleSessionToggle online_env (TrainingPage_mount None None)))
     = [\<lparr>snap_metrics = default_metrics, session_id = None\<rparr>,
        \<lparr>snap_metrics = default_metrics, session_id = Some ''a1''\<rparr>]"
  using double_submission[of "handleSessionToggle online_env (TrainingPage_mount None None)" online_env "Some ''a1''"]
  unfolding started_online started
  by (simp add: online_env_def offline_env_def TrainingPage_mount_def)

end
